theory Spec2Isabelle
  imports Main
begin

section \<open>Values, dictionaries and exceptions\<close>

text \<open>
  The monitor (\<^verbatim>\<open>vigilante_claro.py\<close>) handles dictionaries whose values come from a
  Python literal on the fetched page or from the JSON state file. The values modelled are
  the scalar leaves: \<^verbatim>\<open>None\<close>, booleans, integers and strings. Text is a list of 8-bit
  characters, read as the code points below 256; \<^verbatim>\<open>lower\<close>, \<^verbatim>\<open>strip\<close> and the
  regular-expression classes below are Python's on that range.
\<close>

datatype pyval = PNone | PBool bool | PInt int | PStr string

text \<open>A Python \<^verbatim>\<open>dict\<close> with string keys, in insertion order.\<close>

type_synonym doc = "(string \<times> pyval) list"

datatype exn =
    RuntimeError string
  | KeyError string
  | TypeError string
  | AttributeError string
  | ValueError string
  | SyntaxError string
  | JSONDecodeError string
  | RequestException string

fun type_name :: "pyval \<Rightarrow> string" where
  "type_name PNone = ''NoneType''"
| "type_name (PBool b) = ''bool''"
| "type_name (PInt i) = ''int''"
| "type_name (PStr s) = ''str''"

definition quoted :: "string \<Rightarrow> string" where
  "quoted s = CHR 0x27 # s @ [CHR 0x27]"

text \<open>\<^verbatim>\<open>doc.get(k, default)\<close> and \<^verbatim>\<open>doc[k]\<close>.\<close>

definition dict_get :: "doc \<Rightarrow> string \<Rightarrow> pyval \<Rightarrow> pyval" where
  "dict_get d k dflt = (case map_of d k of None \<Rightarrow> dflt | Some v \<Rightarrow> v)"

definition subscript :: "doc \<Rightarrow> string \<Rightarrow> exn + pyval" where
  "subscript d k = (case map_of d k of None \<Rightarrow> Inl (KeyError k) | Some v \<Rightarrow> Inr v)"

section \<open>String operations\<close>

definition lower_char :: "char \<Rightarrow> char" where
  "lower_char c =
     (let n = (of_char c :: nat)
      in if (65 \<le> n \<and> n \<le> 90) \<or> (192 \<le> n \<and> n \<le> 222 \<and> n \<noteq> 215)
         then char_of (n + 32) else c)"

definition lower :: "string \<Rightarrow> string" where
  "lower s = map lower_char s"

definition isspace :: "char \<Rightarrow> bool" where
  "isspace c =
     (let n = (of_char c :: nat)
      in (9 \<le> n \<and> n \<le> 13) \<or> (28 \<le> n \<and> n \<le> 32) \<or> n = 133 \<or> n = 160)"

definition strip :: "string \<Rightarrow> string" where
  "strip s = rev (dropWhile isspace (rev (dropWhile isspace s)))"

definition startswith :: "string \<Rightarrow> string \<Rightarrow> bool" where
  "startswith s p = (take (length p) s = p)"

text \<open>\<^verbatim>\<open>doc.get("vigencia", "").lower().strip()\<close>: only a string has the two methods.\<close>

definition lower_strip :: "pyval \<Rightarrow> exn + string" where
  "lower_strip v =
     (case v of
        PStr s \<Rightarrow> Inr (strip (lower s))
      | _ \<Rightarrow> Inl (AttributeError (quoted (type_name v) @ '' object has no attribute '' @ quoted ''lower'')))"

section \<open>Dates\<close>

record datetime =
  year :: nat
  month :: nat
  day :: nat
  hour :: nat
  minute :: nat

definition isdigit :: "char \<Rightarrow> bool" where
  "isdigit c = (48 \<le> (of_char c :: nat) \<and> (of_char c :: nat) \<le> 57)"

definition digit_val :: "char \<Rightarrow> nat" where
  "digit_val c = of_char c - 48"

text \<open>
  \<^verbatim>\<open>datetime.strptime(s, "%d-%m-%Y")\<close> matches the regular expression
  \<^verbatim>\<open>(?P<d>3[0-1]|[1-2]\d|0[1-9]|[1-9]| [1-9])-(?P<m>1[0-2]|0[1-9]|[1-9])-(?P<Y>\d\d\d\d)\<close>
  at the start of \<open>s\<close>, refuses text left over after the match, and then builds the date,
  which refuses year 0 and a day beyond the month's length. Each group below lists its
  alternatives that match, in the order the expression tries them, with the text that remains.
\<close>

definition re_d :: "string \<Rightarrow> (nat \<times> string) list" where
  "re_d s =
     (case s of
        a # b # r \<Rightarrow>
          (if a = CHR ''3'' \<and> (b = CHR ''0'' \<or> b = CHR ''1'') then [(30 + digit_val b, r)] else []) @
          (if (a = CHR ''1'' \<or> a = CHR ''2'') \<and> isdigit b then [(10 * digit_val a + digit_val b, r)] else []) @
          (if a = CHR ''0'' \<and> isdigit b \<and> b \<noteq> CHR ''0'' then [(digit_val b, r)] else [])
      | _ \<Rightarrow> []) @
     (case s of
        a # r \<Rightarrow> (if isdigit a \<and> a \<noteq> CHR ''0'' then [(digit_val a, r)] else [])
      | _ \<Rightarrow> []) @
     (case s of
        a # b # r \<Rightarrow> (if a = CHR '' '' \<and> isdigit b \<and> b \<noteq> CHR ''0'' then [(digit_val b, r)] else [])
      | _ \<Rightarrow> [])"

definition re_m :: "string \<Rightarrow> (nat \<times> string) list" where
  "re_m s =
     (case s of
        a # b # r \<Rightarrow>
          (if a = CHR ''1'' \<and> (b = CHR ''0'' \<or> b = CHR ''1'' \<or> b = CHR ''2'') then [(10 + digit_val b, r)] else []) @
          (if a = CHR ''0'' \<and> isdigit b \<and> b \<noteq> CHR ''0'' then [(digit_val b, r)] else [])
      | _ \<Rightarrow> []) @
     (case s of
        a # r \<Rightarrow> (if isdigit a \<and> a \<noteq> CHR ''0'' then [(digit_val a, r)] else [])
      | _ \<Rightarrow> [])"

definition re_Y :: "string \<Rightarrow> (nat \<times> string) list" where
  "re_Y s =
     (case s of
        a # b # c # d # r \<Rightarrow>
          (if isdigit a \<and> isdigit b \<and> isdigit c \<and> isdigit d
           then [(1000 * digit_val a + 100 * digit_val b + 10 * digit_val c + digit_val d, r)]
           else [])
      | _ \<Rightarrow> [])"

definition re_dash :: "string \<Rightarrow> string list" where
  "re_dash s = (case s of a # r \<Rightarrow> (if a = CHR ''-'' then [r] else []) | _ \<Rightarrow> [])"

definition format_regex_match :: "string \<Rightarrow> (nat \<times> nat \<times> nat \<times> string) list" where
  "format_regex_match s =
     concat (map (\<lambda>(d, r1).
       concat (map (\<lambda>r2.
         concat (map (\<lambda>(m, r3).
           concat (map (\<lambda>r4.
             map (\<lambda>(y, r5). (d, m, y, r5)) (re_Y r4))
           (re_dash r3)))
         (re_m r2)))
       (re_dash r1)))
     (re_d s))"

definition is_leap :: "nat \<Rightarrow> bool" where
  "is_leap y = (y mod 4 = 0 \<and> (y mod 100 \<noteq> 0 \<or> y mod 400 = 0))"

definition days_in_month :: "nat \<Rightarrow> nat \<Rightarrow> nat" where
  "days_in_month y m =
     (if m = 2 then (if is_leap y then 29 else 28)
      else if m = 4 \<or> m = 6 \<or> m = 9 \<or> m = 11 then 30 else 31)"

text \<open>
  \<open>None\<close> stands for the \<^verbatim>\<open>ValueError\<close> that \<^verbatim>\<open>strptime\<close> raises on a string; its
  message is never read by the program.
\<close>

definition strptime :: "string \<Rightarrow> datetime option" where
  "strptime s =
     (case format_regex_match s of
        [] \<Rightarrow> None
      | (d, m, y, rest) # _ \<Rightarrow>
          if rest \<noteq> [] then None
          else if y < 1 then None
          else if days_in_month y m < d then None
          else Some \<lparr>year = y, month = m, day = d, hour = 0, minute = 0\<rparr>)"

section \<open>The validity filter\<close>

text \<open>
  \<^verbatim>\<open>es_mes_actual(fecha_dd_mm_yyyy: str) -> bool\<close>: \<open>hoy\<close> is the reading of
  \<^verbatim>\<open>datetime.now()\<close>.
\<close>

definition es_mes_actual :: "datetime \<Rightarrow> string \<Rightarrow> bool" where
  "es_mes_actual hoy fecha_dd_mm_yyyy =
     (case strptime fecha_dd_mm_yyyy of
        Some f \<Rightarrow> year f = year hoy \<and> month f = month hoy
      | None \<Rightarrow> False)"

text \<open>
  \<^verbatim>\<open>es_valido(doc: dict) -> bool\<close>. The value under \<^verbatim>\<open>publicado\<close> is handed to
  \<^verbatim>\<open>es_mes_actual\<close> as it is: when it is not a string, \<^verbatim>\<open>strptime\<close> raises a
  \<^verbatim>\<open>TypeError\<close>, which the handler for \<^verbatim>\<open>ValueError\<close> does not catch.
\<close>

definition es_valido :: "datetime \<Rightarrow> doc \<Rightarrow> exn + bool" where
  "es_valido hoy doc =
     (case lower_strip (dict_get doc ''vigencia'' (PStr [])) of
        Inl e \<Rightarrow> Inl e
      | Inr vig \<Rightarrow>
          if startswith vig ''vigente''
          then (case subscript doc ''publicado'' of
                  Inl e \<Rightarrow> Inl e
                | Inr (PStr fecha) \<Rightarrow> Inr (es_mes_actual hoy fecha)
                | Inr v \<Rightarrow>
                    Inl (TypeError (''strptime() argument 1 must be str, not '' @
                           (if v = PNone then ''None'' else type_name v))))
          else Inr False)"

section \<open>Rendering values as text\<close>

definition digit_char :: "nat \<Rightarrow> char" where
  "digit_char n = ''0123456789'' ! n"

function show_nat :: "nat \<Rightarrow> string" where
  "show_nat n =
     (if n < 10 then [digit_char n]
      else show_nat (n div 10) @ [digit_char (n mod 10)])"
  by pat_completeness auto
termination
  by (relation "measure id") auto

text \<open>\<^verbatim>\<open>str(v)\<close>, as an f-string renders a value.\<close>

fun py_str :: "pyval \<Rightarrow> string" where
  "py_str PNone = ''None''"
| "py_str (PBool b) = (if b then ''True'' else ''False'')"
| "py_str (PInt i) = (if i < 0 then CHR ''-'' # show_nat (nat (- i)) else show_nat (nat i))"
| "py_str (PStr s) = s"

text \<open>\<^verbatim>\<open>str(e)\<close>: a \<^verbatim>\<open>KeyError\<close> shows the key quoted, the others their message.\<close>

fun exn_str :: "exn \<Rightarrow> string" where
  "exn_str (RuntimeError m) = m"
| "exn_str (KeyError k) = quoted k"
| "exn_str (TypeError m) = m"
| "exn_str (AttributeError m) = m"
| "exn_str (ValueError m) = m"
| "exn_str (SyntaxError m) = m"
| "exn_str (JSONDecodeError m) = m"
| "exn_str (RequestException m) = m"

definition two_digits :: "nat \<Rightarrow> string" where
  "two_digits n = [digit_char (n div 10 mod 10), digit_char (n mod 10)]"

text \<open>\<^verbatim>\<open>datetime.now().strftime("[%d/%m %H:%M] ")\<close>\<close>

definition strftime_ts :: "datetime \<Rightarrow> string" where
  "strftime_ts t =
     ''['' @ two_digits (day t) @ ''/'' @ two_digits (month t) @ '' '' @
     two_digits (hour t) @ '':'' @ two_digits (minute t) @ ''] ''"

section \<open>The environment and the observable state\<close>

text \<open>
  What the libraries answer is an input of the model. \<open>ahora\<close> is the clock: every call
  of \<^verbatim>\<open>notify\<close> and every call of \<^verbatim>\<open>es_valido\<close> that returns is one moment of the run,
  the moments are numbered in the order of the run, and \<open>ahora k\<close> is what
  \<^verbatim>\<open>datetime.now()\<close> gives at moment \<open>k\<close> (a call of \<^verbatim>\<open>es_valido\<close> that returns false
  before it reaches \<^verbatim>\<open>datetime.now()\<close> does not use the clock of its moment). \<open>requests_get\<close> is the outcome of
  \<^verbatim>\<open>requests.get(URL, timeout=20).text\<close>; \<open>script_strings\<close> gives, for a page, the
  \<^verbatim>\<open>.string\<close> of each \<^verbatim>\<open>script\<close> element that BeautifulSoup finds, in page order;
  \<open>patron_findall\<close> and \<open>quita_coma\<close> are the two regular-expression calls of the
  extractor and \<open>literal_eval\<close> is \<^verbatim>\<open>ast.literal_eval\<close>. \<open>requests_post k\<close> is the outcome
  of the POST attempted after \<open>k\<close> earlier ones: \<open>None\<close> when it returns, \<open>Some m\<close> when it
  raises a \<^verbatim>\<open>requests.RequestException\<close> with message \<open>m\<close>.
\<close>

datatype literal = LDict doc | LSet

record env =
  ahora :: "nat \<Rightarrow> datetime"
  DISCORD_WEBHOOK :: "string option"
  requests_get :: "exn + string"
  script_strings :: "string \<Rightarrow> string option list"
  patron_findall :: "string \<Rightarrow> string list"
  quita_coma :: "string \<Rightarrow> string"
  literal_eval :: "string \<Rightarrow> exn + literal"
  requests_post :: "nat \<Rightarrow> string option"

text \<open>
  The text of the state file is either the JSON rendering of a list of records or a text
  that \<^verbatim>\<open>json.loads\<close> refuses with the given message. A rendering is identified with the
  list it stands for: on lists of dictionaries with string keys and scalar values
  \<^verbatim>\<open>json.loads\<close> undoes \<^verbatim>\<open>json.dumps\<close>, and \<^verbatim>\<open>json.dumps\<close> accepts every such list.
\<close>

datatype file_text = JsonText "doc list" | Undecodable string

definition json_dumps :: "doc list \<Rightarrow> file_text" where
  "json_dumps ds = JsonText ds"

fun json_loads :: "file_text \<Rightarrow> exn + doc list" where
  "json_loads (JsonText ds) = Inr ds"
| "json_loads (Undecodable m) = Inl (JSONDecodeError m)"

text \<open>
  \<open>state_file\<close> is \<open>None\<close> while \<^verbatim>\<open>claro_docs.json\<close> does not exist; \<open>writes\<close> counts the
  calls of \<^verbatim>\<open>write_text\<close>; \<open>console\<close> holds the printed lines and \<open>posts\<close> the POSTs
  attempted (endpoint and content), both oldest first; \<open>reloj\<close> is the number of moments
  that have passed, so that \<open>ahora env (reloj w)\<close> is the clock at the next one.
\<close>

record world =
  state_file :: "file_text option"
  writes :: nat
  reloj :: nat
  console :: "string list"
  posts :: "(string \<times> string) list"

section \<open>Notification\<close>

definition is_ascii :: "char \<Rightarrow> bool" where
  "is_ascii c = ((of_char c :: nat) \<le> 127)"

definition notify :: "env \<Rightarrow> string \<Rightarrow> world \<Rightarrow> world" where
  "notify env msg w =
     (let ts = strftime_ts (ahora env (reloj w));
          console_msg = map (\<lambda>c. if is_ascii c then c else CHR '' '') msg;
          w1 = w\<lparr>reloj := reloj w + 1, console := console w @ [ts @ console_msg]\<rparr>
      in case DISCORD_WEBHOOK env of
           None \<Rightarrow> w1
         | Some url \<Rightarrow>
             if url = [] then w1
             else (case requests_post env (length (posts w1)) of
                     None \<Rightarrow> w1\<lparr>posts := posts w1 @ [(url, msg)]\<rparr>
                   | Some m \<Rightarrow>
                       w1\<lparr>posts := posts w1 @ [(url, msg)],
                         console := console w1 @ [''Error Discord: '' @ m]\<rparr>))"

section \<open>The state store\<close>

definition cargar_estado :: "world \<Rightarrow> exn + doc list" where
  "cargar_estado w =
     (case state_file w of
        Some t \<Rightarrow> json_loads t
      | None \<Rightarrow> Inr [])"

text \<open>
  A call \<^verbatim>\<open>es_valido(d)\<close> in the run: it reads the clock of its moment. A call that raises
  has not reached \<^verbatim>\<open>datetime.now()\<close> and is no moment.
\<close>

definition es_valido_ahora :: "env \<Rightarrow> doc \<Rightarrow> world \<Rightarrow> (exn + bool) \<times> world" where
  "es_valido_ahora env d w =
     (case es_valido (ahora env (reloj w)) d of
        Inl e \<Rightarrow> (Inl e, w)
      | Inr ok \<Rightarrow> (Inr ok, w\<lparr>reloj := reloj w + 1\<rparr>))"

text \<open>\<^verbatim>\<open>[d for d in lista if es_valido(d)]\<close>: the first exception ends the comprehension.\<close>

fun actuales_de :: "env \<Rightarrow> doc list \<Rightarrow> world \<Rightarrow> (exn + doc list) \<times> world" where
  "actuales_de env [] w = (Inr [], w)"
| "actuales_de env (d # ds) w =
     (case es_valido_ahora env d w of
        (Inl e, w1) \<Rightarrow> (Inl e, w1)
      | (Inr ok, w1) \<Rightarrow>
          (case actuales_de env ds w1 of
             (Inl e, w2) \<Rightarrow> (Inl e, w2)
           | (Inr r, w2) \<Rightarrow> (Inr (if ok then d # r else r), w2)))"

definition guardar_estado :: "env \<Rightarrow> doc list \<Rightarrow> world \<Rightarrow> (exn + unit) \<times> world" where
  "guardar_estado env lista w =
     (case actuales_de env lista w of
        (Inl e, w1) \<Rightarrow> (Inl e, w1)
      | (Inr actuales, w1) \<Rightarrow>
          (Inr (), w1\<lparr>state_file := Some (json_dumps actuales), writes := writes w1 + 1\<rparr>))"

section \<open>The extractor\<close>

text \<open>\<^verbatim>\<open>p in s\<close> on strings.\<close>

fun py_in :: "string \<Rightarrow> string \<Rightarrow> bool" where
  "py_in p [] = (p = [])"
| "py_in p (c # cs) = (startswith (c # cs) p \<or> py_in p cs)"

definition base_url :: string where
  "base_url = ''https://www.claro.com.ec''"

text \<open>The dictionary built from one parsed literal \<open>d_js\<close>; \<^verbatim>\<open>+\<close> joins two strings only.\<close>

definition documento_de :: "literal \<Rightarrow> exn + doc" where
  "documento_de lit =
     (case lit of
        LSet \<Rightarrow> Inl (AttributeError (quoted ''set'' @ '' object has no attribute '' @ quoted ''get''))
      | LDict d_js \<Rightarrow>
          (case dict_get d_js ''fc_url_documento'' (PStr []) of
             PStr ruta \<Rightarrow>
               Inr [(''id'', dict_get d_js ''fi_documento'' PNone),
                    (''titulo'', dict_get d_js ''fc_titulo'' PNone),
                    (''publicado'', dict_get d_js ''fd_fecha_publicacion'' PNone),
                    (''vigencia'', dict_get d_js ''fc_vigencia_descripcion'' PNone),
                    (''url'', PStr (base_url @ ruta))]
           | v \<Rightarrow> Inl (TypeError (''can only concatenate str (not '' @ [CHR 0x22] @ type_name v @ [CHR 0x22] @ '') to str''))))"

fun extraer :: "env \<Rightarrow> string list \<Rightarrow> exn + doc list" where
  "extraer env [] = Inr []"
| "extraer env (bloque # bs) =
     (case literal_eval env (quita_coma env bloque) of
        Inl e \<Rightarrow> Inl e
      | Inr d_js \<Rightarrow>
          (case documento_de d_js of
             Inl e \<Rightarrow> Inl e
           | Inr d \<Rightarrow>
               (case extraer env bs of
                  Inl e \<Rightarrow> Inl e
                | Inr ds \<Rightarrow> Inr (d # ds))))"

text \<open>
  The scripts kept are those whose string is there, is not empty and holds the marker
  (\<^verbatim>\<open>lambda t: t and "catalogoArr[" in t\<close>). The blocks of all kept scripts are handled in
  page order.
\<close>

definition scripts_de :: "env \<Rightarrow> string \<Rightarrow> string list" where
  "scripts_de env html =
     concat (map (\<lambda>t. case t of
                         None \<Rightarrow> []
                       | Some s \<Rightarrow> (if s \<noteq> [] \<and> py_in ''catalogoArr['' s then [s] else []))
                 (script_strings env html))"

definition obtener_documentos :: "env \<Rightarrow> exn + doc list" where
  "obtener_documentos env =
     (case requests_get env of
        Inl e \<Rightarrow> Inl e
      | Inr html \<Rightarrow>
          (let scripts = scripts_de env html
           in if scripts = []
              then Inl (RuntimeError (''No se encontr'' @ [CHR 0xF3] @ '' catalogoArr en el HTML''))
              else extraer env (concat (map (patron_findall env) scripts))))"

section \<open>The orchestrator\<close>

text \<open>
  A Python \<^verbatim>\<open>set\<close> compares its members with \<^verbatim>\<open>==\<close>, under which \<^verbatim>\<open>True\<close> is \<open>1\<close>
  and \<^verbatim>\<open>False\<close> is \<open>0\<close>. The set of known ids is a list of keys without repetition.
\<close>

datatype hkey = KNone | KInt int | KStr string

fun py_key :: "pyval \<Rightarrow> hkey" where
  "py_key PNone = KNone"
| "py_key (PBool b) = KInt (if b then 1 else 0)"
| "py_key (PInt i) = KInt i"
| "py_key (PStr s) = KStr s"

text \<open>\<^verbatim>\<open>{d["id"] for d in cargar_estado() if es_valido(d)}\<close>\<close>

fun ids_validos :: "env \<Rightarrow> doc list \<Rightarrow> world \<Rightarrow> (exn + hkey list) \<times> world" where
  "ids_validos env [] w = (Inr [], w)"
| "ids_validos env (d # ds) w =
     (case es_valido_ahora env d w of
        (Inl e, w1) \<Rightarrow> (Inl e, w1)
      | (Inr ok, w1) \<Rightarrow>
          if ok
          then (case subscript d ''id'' of
                  Inl e \<Rightarrow> (Inl e, w1)
                | Inr i \<Rightarrow>
                    (case ids_validos env ds w1 of
                       (Inl e, w2) \<Rightarrow> (Inl e, w2)
                     | (Inr r, w2) \<Rightarrow> (Inr (List.insert (py_key i) r), w2)))
          else ids_validos env ds w1)"

text \<open>
  \<^verbatim>\<open>[d for d in docs if d["id"] not in conocidos and es_valido(d)]\<close>: \<^verbatim>\<open>and\<close> does not
  evaluate \<^verbatim>\<open>es_valido(d)\<close> for a known id.
\<close>

fun nuevos_de :: "env \<Rightarrow> hkey list \<Rightarrow> doc list \<Rightarrow> world \<Rightarrow> (exn + doc list) \<times> world" where
  "nuevos_de env conocidos [] w = (Inr [], w)"
| "nuevos_de env conocidos (d # ds) w =
     (case subscript d ''id'' of
        Inl e \<Rightarrow> (Inl e, w)
      | Inr i \<Rightarrow>
          if py_key i \<in> set conocidos then nuevos_de env conocidos ds w
          else (case es_valido_ahora env d w of
                  (Inl e, w1) \<Rightarrow> (Inl e, w1)
                | (Inr ok, w1) \<Rightarrow>
                    (case nuevos_de env conocidos ds w1 of
                       (Inl e, w2) \<Rightarrow> (Inl e, w2)
                     | (Inr r, w2) \<Rightarrow> (Inr (if ok then d # r else r), w2))))"

text \<open>\<^verbatim>\<open>f"Nuevo documento: {d['titulo']} ({d['publicado']})\n{d['url']}"\<close>\<close>

definition mensaje_nuevo :: "doc \<Rightarrow> exn + string" where
  "mensaje_nuevo d =
     (case subscript d ''titulo'' of
        Inl e \<Rightarrow> Inl e
      | Inr titulo \<Rightarrow>
          (case subscript d ''publicado'' of
             Inl e \<Rightarrow> Inl e
           | Inr publicado \<Rightarrow>
               (case subscript d ''url'' of
                  Inl e \<Rightarrow> Inl e
                | Inr url \<Rightarrow>
                    Inr (''Nuevo documento: '' @ py_str titulo @ '' ('' @ py_str publicado @
                         '')'' @ [CHR 0x0A] @ py_str url))))"

text \<open>The loop over \<^verbatim>\<open>nuevos\<close>: notify, then add the id to \<^verbatim>\<open>conocidos\<close>.\<close>

fun notificar_nuevos :: "env \<Rightarrow> doc list \<Rightarrow> hkey list \<Rightarrow> world \<Rightarrow> (exn + hkey list) \<times> world" where
  "notificar_nuevos env [] conocidos w = (Inr conocidos, w)"
| "notificar_nuevos env (d # ds) conocidos w =
     (case mensaje_nuevo d of
        Inl e \<Rightarrow> (Inl e, w)
      | Inr msg \<Rightarrow>
          (case subscript d ''id'' of
             Inl e \<Rightarrow> (Inl e, notify env msg w)
           | Inr i \<Rightarrow>
               notificar_nuevos env ds (List.insert (py_key i) conocidos) (notify env msg w)))"

text \<open>
  Lines 118 to 122 of the source: the list \<^verbatim>\<open>nuevos\<close> and the loop over it. The result
  holds the two local variables the properties speak of, \<^verbatim>\<open>nuevos\<close> and \<^verbatim>\<open>conocidos\<close>, as
  they are after the loop.
\<close>

record pasada =
  nuevos :: "doc list"
  conocidos :: "hkey list"

definition novedades :: "env \<Rightarrow> hkey list \<Rightarrow> doc list \<Rightarrow> world \<Rightarrow> (exn + pasada) \<times> world" where
  "novedades env conocidos0 docs w =
     (case nuevos_de env conocidos0 docs w of
        (Inl e, w1) \<Rightarrow> (Inl e, w1)
      | (Inr ns, w1) \<Rightarrow>
          (case notificar_nuevos env ns conocidos0 w1 of
             (Inl e, w2) \<Rightarrow> (Inl e, w2)
           | (Inr cs, w2) \<Rightarrow> (Inr \<lparr>nuevos = ns, conocidos = cs\<rparr>, w2)))"

text \<open>The body of the \<^verbatim>\<open>try\<close> statement.\<close>

definition cuerpo :: "env \<Rightarrow> hkey list \<Rightarrow> world \<Rightarrow> (exn + pasada) \<times> world" where
  "cuerpo env conocidos0 w =
     (case obtener_documentos env of
        Inl e \<Rightarrow> (Inl e, w)
      | Inr docs \<Rightarrow>
          (case novedades env conocidos0 docs w of
             (Inl e, w1) \<Rightarrow> (Inl e, w1)
           | (Inr p, w1) \<Rightarrow>
               if nuevos p \<noteq> []
               then (case guardar_estado env docs w1 of
                       (Inl e, w2) \<Rightarrow> (Inl e, w2)
                     | (Inr u, w2) \<Rightarrow> (Inr p, w2))
               else (Inr p, notify env ''Sin novedades en esta pasada'' w1)))"

text \<open>
  The two characters that open the error message, U+26A0 and U+FE0F, lie beyond the 8-bit
  range; two characters outside ASCII stand for them.
\<close>

definition warning_sign :: string where
  "warning_sign = [CHR 0xFF, CHR 0xFF]"

definition mensaje_inicio :: "hkey list \<Rightarrow> string" where
  "mensaje_inicio cs =
     ''Monitor iniciado. Docs v'' @ [CHR 0xE1] @ ''lidos conocidos: '' @ show_nat (length cs)"

definition mensaje_error :: "exn \<Rightarrow> string" where
  "mensaje_error e = warning_sign @ '' Error general: '' @ exn_str e"

text \<open>
  \<^verbatim>\<open>main\<close>: the first two statements stand before the \<^verbatim>\<open>try\<close>, so what they raise
  leaves \<^verbatim>\<open>main\<close>; what the body raises reaches the handler.
\<close>

definition main :: "env \<Rightarrow> world \<Rightarrow> (exn + unit) \<times> world" where
  "main env w =
     (case cargar_estado w of
        Inl e \<Rightarrow> (Inl e, w)
      | Inr estado \<Rightarrow>
          (case ids_validos env estado w of
             (Inl e, w0) \<Rightarrow> (Inl e, w0)
           | (Inr cs, w0) \<Rightarrow>
               (case cuerpo env cs (notify env (mensaje_inicio cs) w0) of
                  (Inl e, w2) \<Rightarrow> (Inr (), notify env (mensaje_error e) w2)
                | (Inr p, w2) \<Rightarrow> (Inr (), w2))))"

section \<open>Notions used to state the properties\<close>

text \<open>The relative path taken from a parsed literal; empty when the key is absent.\<close>

definition ruta_de :: "doc \<Rightarrow> string" where
  "ruta_de d_js = (case map_of d_js ''fc_url_documento'' of Some (PStr ruta) \<Rightarrow> ruta | _ \<Rightarrow> [])"

text \<open>\<^verbatim>\<open>isinstance(v, str)\<close>\<close>

definition is_str :: "pyval \<Rightarrow> bool" where
  "is_str v = (case v of PStr s \<Rightarrow> True | _ \<Rightarrow> False)"

text \<open>
  The status and the date of a record are text: the status may be missing, the date may not.
\<close>

definition campos_texto :: "doc \<Rightarrow> bool" where
  "campos_texto d =
     ((case map_of d ''vigencia'' of None \<Rightarrow> True | Some v \<Rightarrow> is_str v) \<and>
      (case map_of d ''publicado'' of None \<Rightarrow> False | Some v \<Rightarrow> is_str v))"


text \<open>The validity predicate returns on the record, true or false.\<close>

definition decide :: "datetime \<Rightarrow> doc \<Rightarrow> bool" where
  "decide t d = (es_valido t d = Inr True \<or> es_valido t d = Inr False)"





text \<open>No endpoint is configured: the variable is unset or empty.\<close>

definition sin_webhook :: "env \<Rightarrow> bool" where
  "sin_webhook env = (case DISCORD_WEBHOOK env of None \<Rightarrow> True | Some url \<Rightarrow> url = [])"

text \<open>
  Two states agree on the state file, on the number of times it was written and on the
  moment of the run.
\<close>

definition mismo_archivo :: "world \<Rightarrow> world \<Rightarrow> bool" where
  "mismo_archivo w1 w2 =
     (state_file w1 = state_file w2 \<and> writes w1 = writes w2 \<and> reloj w1 = reloj w2)"





section \<open>Concrete inputs\<close>

definition hoy_ej :: datetime where
  "hoy_ej = \<lparr>year = 2026, month = 11, day = 4, hour = 9, minute = 5\<rparr>"

definition doc_ej :: doc where
  "doc_ej = [(''id'', PInt 7), (''titulo'', PStr ''Tarifas''), (''publicado'', PStr ''03-11-2026''),
             (''vigencia'', PStr '' Vigente''), (''url'', PStr ''https://www.claro.com.ec/doc/7.pdf'')]"

definition lit_ej :: doc where
  "lit_ej = [(''fi_documento'', PInt 7), (''fc_titulo'', PStr ''Tarifas''),
             (''fd_fecha_publicacion'', PStr ''03-11-2026''),
             (''fc_vigencia_descripcion'', PStr '' Vigente''),
             (''fc_url_documento'', PStr ''/doc/7.pdf'')]"

text \<open>A page with one block, and what the libraries answer on it.\<close>

definition dq :: "string \<Rightarrow> string" where
  "dq s = CHR 0x22 # s @ [CHR 0x22]"

definition bloque_ej :: string where
  "bloque_ej =
     ''{'' @ dq ''fi_documento'' @ '': 7, '' @ dq ''fc_titulo'' @ '': '' @ dq ''Tarifas'' @ '', '' @
     dq ''fd_fecha_publicacion'' @ '': '' @ dq ''03-11-2026'' @ '', '' @
     dq ''fc_vigencia_descripcion'' @ '': '' @ dq '' Vigente'' @ '', '' @
     dq ''fc_url_documento'' @ '': '' @ dq ''/doc/7.pdf'' @ ''}''"

definition script_ej :: string where
  "script_ej = ''catalogoArr[7] = '' @ bloque_ej @ '';''"

definition pagina_ej :: string where
  "pagina_ej = ''<html><script>'' @ script_ej @ ''</script></html>''"

definition env_ej :: env where
  "env_ej = \<lparr>ahora = (\<lambda>k. hoy_ej),
     DISCORD_WEBHOOK = Some ''https://discord.example/hook'',
     requests_get = Inr pagina_ej,
     script_strings = (\<lambda>h. if h = pagina_ej then [Some script_ej] else []),
     patron_findall = (\<lambda>s. if s = script_ej then [bloque_ej] else []),
     quita_coma = (\<lambda>s. s),
     literal_eval = (\<lambda>s. if s = bloque_ej then Inr (LDict lit_ej)
                           else Inl (SyntaxError ''invalid syntax'')),
     requests_post = (\<lambda>k. if k = 1 then Some ''timeout'' else None)\<rparr>"

text \<open>A page whose scripts do not hold the marker.\<close>

definition pagina_otra :: string where
  "pagina_otra = ''<html><script src=a.js></script><script>var x = 1;</script></html>''"

definition env_otra :: env where
  "env_otra = env_ej\<lparr>requests_get := Inr pagina_otra,
     script_strings := (\<lambda>h. if h = pagina_otra then [None, Some ''var x = 1;''] else [])\<rparr>"

definition w_ej :: world where
  "w_ej = \<lparr>state_file = None, writes = 0, reloj = 0, console = [], posts = []\<rparr>"






definition w_un_post :: world where
  "w_un_post = \<lparr>state_file = None, writes = 0, reloj = 0, console = [],
                posts = [(''https://discord.example/hook'', ''hola'')]\<rparr>"

definition env_sin_webhook :: env where
  "env_sin_webhook = env_ej\<lparr>DISCORD_WEBHOOK := None\<rparr>"













text \<open>
  A pass around midnight of the last day of October: the page shows one document of
  October, and the clock reaches November after the third moment of the run.
\<close>

definition lit_octubre :: doc where
  "lit_octubre = [(''fi_documento'', PInt 4), (''fc_titulo'', PStr ''Cobertura''),
                  (''fd_fecha_publicacion'', PStr ''30-10-2026''),
                  (''fc_vigencia_descripcion'', PStr ''Vigente''),
                  (''fc_url_documento'', PStr ''/doc/4.pdf'')]"

definition doc_octubre :: doc where
  "doc_octubre = [(''id'', PInt 4), (''titulo'', PStr ''Cobertura''), (''publicado'', PStr ''30-10-2026''),
                  (''vigencia'', PStr ''Vigente''), (''url'', PStr ''https://www.claro.com.ec/doc/4.pdf'')]"

definition bloque_octubre :: string where
  "bloque_octubre =
     ''{'' @ dq ''fi_documento'' @ '': 4, '' @ dq ''fc_titulo'' @ '': '' @ dq ''Cobertura'' @ '', '' @
     dq ''fd_fecha_publicacion'' @ '': '' @ dq ''30-10-2026'' @ '', '' @
     dq ''fc_vigencia_descripcion'' @ '': '' @ dq ''Vigente'' @ '', '' @
     dq ''fc_url_documento'' @ '': '' @ dq ''/doc/4.pdf'' @ ''}''"

definition script_octubre :: string where
  "script_octubre = ''catalogoArr[4] = '' @ bloque_octubre @ '';''"

definition pagina_octubre :: string where
  "pagina_octubre = ''<html><script>'' @ script_octubre @ ''</script></html>''"

definition env_fin_de_mes :: env where
  "env_fin_de_mes = \<lparr>ahora = (\<lambda>k. if k < 3
                      then \<lparr>year = 2026, month = 10, day = 31, hour = 23, minute = 59\<rparr>
                      else \<lparr>year = 2026, month = 11, day = 1, hour = 0, minute = 0\<rparr>),
     DISCORD_WEBHOOK = None,
     requests_get = Inr pagina_octubre,
     script_strings = (\<lambda>h. if h = pagina_octubre then [Some script_octubre] else []),
     patron_findall = (\<lambda>s. if s = script_octubre then [bloque_octubre] else []),
     quita_coma = (\<lambda>s. s),
     literal_eval = (\<lambda>s. if s = bloque_octubre then Inr (LDict lit_octubre)
                           else Inl (SyntaxError ''invalid syntax'')),
     requests_post = (\<lambda>k. None)\<rparr>"


section \<open>The validity filter: properties\<close>

lemma lower_strip_Inr: "lower_strip v = Inr x \<longleftrightarrow> (\<exists>s. v = PStr s \<and> x = strip (lower s))"
  by (cases v) (auto simp: lower_strip_def)

lemma not_startswith_empty: "\<not> startswith (strip (lower [])) ''vigente''"
  by (simp add: startswith_def strip_def lower_def)

text \<open>
  Claim C1. For every record \<open>d\<close>, \<^verbatim>\<open>es_valido\<close> returns true if and only if the status
  of \<open>d\<close>, lowercased and stripped of surrounding whitespace, starts with \<^verbatim>\<open>vigente\<close>, the
  publication date of \<open>d\<close> parses as day-month-year separated by dashes, and the year and
  the month of the parsed date are those of the clock \<open>t\<close> at the time of the call.
\<close>

theorem es_valido_iff:
  "es_valido t d = Inr True \<longleftrightarrow>
     (\<exists>s p f. map_of d ''vigencia'' = Some (PStr s) \<and> startswith (strip (lower s)) ''vigente'' \<and>
              map_of d ''publicado'' = Some (PStr p) \<and> strptime p = Some f \<and>
              year f = year t \<and> month f = month t)"
proof
  assume L: "es_valido t d = Inr True"
  then obtain vig where v: "lower_strip (dict_get d ''vigencia'' (PStr [])) = Inr vig"
    and sw: "startswith vig ''vigente''"
    by (auto simp: es_valido_def split: sum.splits if_splits)
  from v obtain s where s: "dict_get d ''vigencia'' (PStr []) = PStr s" "vig = strip (lower s)"
    by (auto simp: lower_strip_Inr)
  from s sw not_startswith_empty have vs: "map_of d ''vigencia'' = Some (PStr s)"
    by (auto simp: dict_get_def split: option.splits)
  from L v sw obtain p where f: "subscript d ''publicado'' = Inr (PStr p)"
    and m: "es_mes_actual t p"
    by (auto simp: es_valido_def split: sum.splits pyval.splits)
  from f have pf: "map_of d ''publicado'' = Some (PStr p)"
    by (auto simp: subscript_def split: option.splits)
  from m obtain g where "strptime p = Some g" "year g = year t" "month g = month t"
    by (auto simp: es_mes_actual_def split: option.splits)
  with vs s sw pf show "\<exists>s p f. map_of d ''vigencia'' = Some (PStr s) \<and> startswith (strip (lower s)) ''vigente'' \<and>
              map_of d ''publicado'' = Some (PStr p) \<and> strptime p = Some f \<and>
              year f = year t \<and> month f = month t"
    by blast
next
  assume "\<exists>s p f. map_of d ''vigencia'' = Some (PStr s) \<and> startswith (strip (lower s)) ''vigente'' \<and>
              map_of d ''publicado'' = Some (PStr p) \<and> strptime p = Some f \<and>
              year f = year t \<and> month f = month t"
  then show "es_valido t d = Inr True"
    by (auto simp: es_valido_def dict_get_def lower_strip_def subscript_def es_mes_actual_def)
qed

theorem es_valido_iff_witness:
  "map_of doc_ej ''vigencia'' = Some (PStr '' Vigente'') \<and>
   startswith (strip (lower '' Vigente'')) ''vigente'' \<and>
   map_of doc_ej ''publicado'' = Some (PStr ''03-11-2026'') \<and>
   strptime ''03-11-2026'' = Some \<lparr>year = 2026, month = 11, day = 3, hour = 0, minute = 0\<rparr> \<and>
   es_valido hoy_ej doc_ej = Inr True"
proof -
  have a: "map_of doc_ej ''vigencia'' = Some (PStr '' Vigente'')"
    and b: "map_of doc_ej ''publicado'' = Some (PStr ''03-11-2026'')"
    by (simp_all add: doc_ej_def)
  have c: "startswith (strip (lower '' Vigente'')) ''vigente''"
    by code_simp
  have d: "strptime ''03-11-2026'' = Some \<lparr>year = 2026, month = 11, day = 3, hour = 0, minute = 0\<rparr>"
    by code_simp
  have "es_valido hoy_ej doc_ej = Inr True"
    using a b c d es_valido_iff [where t = hoy_ej and d = doc_ej] by (auto simp: hoy_ej_def)
  with a b c d show ?thesis by simp
qed

text \<open>
  Claim C10. On a record without the key \<^verbatim>\<open>vigencia\<close> the status counts as empty and
  \<^verbatim>\<open>es_valido\<close> returns false; on a dictionary whose status starts with \<^verbatim>\<open>vigente\<close> and
  that has no key \<^verbatim>\<open>publicado\<close> it raises \<^verbatim>\<open>KeyError\<close> and returns no boolean.
\<close>

theorem es_valido_missing_keys:
  "(map_of d ''vigencia'' = None \<longrightarrow> es_valido t d = Inr False) \<and>
   (map_of d ''vigencia'' = Some (PStr s) \<and> startswith (strip (lower s)) ''vigente'' \<and>
    map_of d ''publicado'' = None \<longrightarrow> es_valido t d = Inl (KeyError ''publicado''))"
  using not_startswith_empty
  by (auto simp: es_valido_def dict_get_def lower_strip_def subscript_def)

theorem es_valido_missing_keys_witness:
  "es_valido hoy_ej [(''publicado'', PStr ''03-11-2026'')] = Inr False \<and>
   es_valido hoy_ej [(''vigencia'', PStr ''Vigente'')] = Inl (KeyError ''publicado'')"
proof -
  have c: "startswith (strip (lower ''Vigente'')) ''vigente''"
    by code_simp
  show ?thesis
    using c es_valido_missing_keys [where d = "[(''publicado'', PStr ''03-11-2026'')]" and t = hoy_ej]
      es_valido_missing_keys [where d = "[(''vigencia'', PStr ''Vigente'')]" and s = "''Vigente''" and t = hoy_ej]
    by simp
qed






section \<open>The extractor: properties\<close>

lemma startswith_iff: "startswith s p \<longleftrightarrow> (\<exists>b. s = p @ b)"
  unfolding startswith_def
  by (metis append_eq_conv_conj append_take_drop_id)

lemma py_in_iff: "py_in p s \<longleftrightarrow> (\<exists>a b. s = a @ p @ b)"
proof (induction s)
  case Nil
  then show ?case by auto
next
  case (Cons c cs)
  show ?case
  proof
    assume "py_in p (c # cs)"
    then consider "startswith (c # cs) p" | "py_in p cs" by auto
    then show "\<exists>a b. c # cs = a @ p @ b"
    proof cases
      case 1
      then obtain b where "c # cs = [] @ p @ b" by (auto simp: startswith_iff)
      then show ?thesis by blast
    next
      case 2
      with Cons.IH obtain a b where "cs = a @ p @ b" by blast
      then have "c # cs = (c # a) @ p @ b" by simp
      then show ?thesis by blast
    qed
  next
    assume "\<exists>a b. c # cs = a @ p @ b"
    then obtain a b where ab: "c # cs = a @ p @ b" by blast
    show "py_in p (c # cs)"
    proof (cases a)
      case Nil
      with ab have "\<exists>b. c # cs = p @ b" by auto
      then have "startswith (c # cs) p" by (simp only: startswith_iff)
      then show ?thesis by simp
    next
      case (Cons x xs)
      with ab have "cs = xs @ p @ b" by simp
      with Cons.IH show ?thesis by auto
    qed
  qed
qed

lemma scripts_de_empty:
  "scripts_de env html = [] \<longleftrightarrow>
     (\<forall>s. Some s \<in> set (script_strings env html) \<longrightarrow> s = [] \<or> \<not> py_in ''catalogoArr['' s)"
  by (auto simp: scripts_de_def split: option.splits)

text \<open>
  Claim C7. When the page is fetched and no script block of it contains the marker
  \<^verbatim>\<open>catalogoArr[\<close>, the extractor raises the \<^verbatim>\<open>RuntimeError\<close> with its message; it does
  not return an empty list.
\<close>

theorem obtener_documentos_no_marker:
  assumes "requests_get env = Inr html"
    and "\<forall>s. Some s \<in> set (script_strings env html) \<longrightarrow> \<not> (\<exists>a b. s = a @ ''catalogoArr['' @ b)"
  shows "obtener_documentos env =
           Inl (RuntimeError (''No se encontr'' @ [CHR 0xF3] @ '' catalogoArr en el HTML''))"
proof -
  from assms(2) have "scripts_de env html = []"
    by (simp add: scripts_de_empty py_in_iff)
  with assms(1) show ?thesis
    by (simp add: obtener_documentos_def)
qed

theorem obtener_documentos_no_marker_witness:
  "requests_get env_otra = Inr pagina_otra \<and>
   script_strings env_otra pagina_otra = [None, Some ''var x = 1;''] \<and>
   obtener_documentos env_otra =
     Inl (RuntimeError (''No se encontr'' @ [CHR 0xF3] @ '' catalogoArr en el HTML''))"
proof -
  have g: "requests_get env_otra = Inr pagina_otra"
    and s: "script_strings env_otra pagina_otra = [None, Some ''var x = 1;'']"
    by (simp_all add: env_otra_def)
  have "\<not> py_in ''catalogoArr['' ''var x = 1;''"
    by code_simp
  then have "\<not> (\<exists>a b. ''var x = 1;'' = a @ ''catalogoArr['' @ b)"
    by (simp add: py_in_iff)
  with s have "\<forall>s. Some s \<in> set (script_strings env_otra pagina_otra) \<longrightarrow>
      \<not> (\<exists>a b. s = a @ ''catalogoArr['' @ b)"
    by simp
  from obtener_documentos_no_marker [OF g this] g s show ?thesis
    by simp
qed

lemma documento_de_Inr:
  "documento_de lit = Inr r \<Longrightarrow>
     \<exists>d_js. lit = LDict d_js \<and> map_of r ''url'' = Some (PStr (base_url @ ruta_de d_js))"
  by (auto simp: documento_de_def dict_get_def ruta_de_def split: literal.splits option.splits pyval.splits)

lemma extraer_url:
  "extraer env bs = Inr ds \<Longrightarrow>
     list_all2 (\<lambda>b d. \<exists>d_js. literal_eval env (quita_coma env b) = Inr (LDict d_js) \<and>
                       map_of d ''url'' = Some (PStr (base_url @ ruta_de d_js))) bs ds"
proof (induction bs arbitrary: ds)
  case Nil
  then show ?case by simp
next
  case (Cons b bs)
  then obtain lit d ds' where l: "literal_eval env (quita_coma env b) = Inr lit"
    and d: "documento_de lit = Inr d" and r: "extraer env bs = Inr ds'" and e: "ds = d # ds'"
    by (auto split: sum.splits)
  from documento_de_Inr [OF d] l have
    "\<exists>d_js. literal_eval env (quita_coma env b) = Inr (LDict d_js) \<and>
            map_of d ''url'' = Some (PStr (base_url @ ruta_de d_js))"
    by auto
  with Cons.IH [OF r] e show ?case by simp
qed

text \<open>
  Claim C8. The \<^verbatim>\<open>url\<close> of the record built from a parsed literal is the base domain
  followed by the relative path of the literal, and the base domain alone when the literal
  has no relative path. Every record the extractor returns is built from the literal of its
  block in this way.
\<close>

theorem documento_url:
  "(map_of d_js ''fc_url_documento'' = None \<longrightarrow>
      (\<exists>r. documento_de (LDict d_js) = Inr r \<and> map_of r ''url'' = Some (PStr base_url))) \<and>
   (map_of d_js ''fc_url_documento'' = Some (PStr ruta) \<longrightarrow>
      (\<exists>r. documento_de (LDict d_js) = Inr r \<and> map_of r ''url'' = Some (PStr (base_url @ ruta)))) \<and>
   (extraer env bs = Inr ds \<longrightarrow>
      list_all2 (\<lambda>b d. \<exists>lit. literal_eval env (quita_coma env b) = Inr (LDict lit) \<and>
                        map_of d ''url'' = Some (PStr (base_url @ ruta_de lit))) bs ds)"
  using extraer_url [of env bs ds]
  by (auto simp: documento_de_def dict_get_def)

lemma extraer_env_ej: "extraer env_ej [bloque_ej] = Inr [doc_ej]"
  by (simp add: env_ej_def lit_ej_def documento_de_def dict_get_def base_url_def doc_ej_def)

theorem documento_url_witness:
  "(\<exists>r. documento_de (LDict [(''fi_documento'', PInt 8)]) = Inr r \<and>
        map_of r ''url'' = Some (PStr ''https://www.claro.com.ec'')) \<and>
   (\<exists>r. documento_de (LDict lit_ej) = Inr r \<and>
        map_of r ''url'' = Some (PStr ''https://www.claro.com.ec/doc/7.pdf'')) \<and>
   extraer env_ej [bloque_ej] = Inr [doc_ej] \<and>
   list_all2 (\<lambda>b d. \<exists>lit. literal_eval env_ej (quita_coma env_ej b) = Inr (LDict lit) \<and>
                     map_of d ''url'' = Some (PStr (base_url @ ruta_de lit)))
     [bloque_ej] [doc_ej]"
proof -
  have a: "map_of [(''fi_documento'', PInt 8)] ''fc_url_documento'' = None"
    and b: "map_of lit_ej ''fc_url_documento'' = Some (PStr ''/doc/7.pdf'')"
    by (simp_all add: lit_ej_def)
  show ?thesis
    using documento_url [where d_js = "[(''fi_documento'', PInt 8)]" and env = env_ej
        and bs = "[bloque_ej]" and ds = "[doc_ej]"]
      documento_url [where d_js = lit_ej and ruta = "''/doc/7.pdf''" and env = env_ej and bs = "[]" and ds = "[]"]
      a b extraer_env_ej
    by (simp add: base_url_def)
qed

section \<open>The state store: properties\<close>

lemma campos_texto_decide: "campos_texto d \<Longrightarrow> decide t d"
  by (auto simp: campos_texto_def is_str_def decide_def es_valido_def dict_get_def lower_strip_def
        subscript_def split: option.splits pyval.splits)

lemma es_valido_ahora_frame:
  "es_valido_ahora env d w = (r, w') \<Longrightarrow>
     state_file w' = state_file w \<and> writes w' = writes w \<and> console w' = console w \<and>
     posts w' = posts w \<and> reloj w \<le> reloj w'"
  by (auto simp: es_valido_ahora_def split: sum.splits)



lemma actuales_de_frame:
  "actuales_de env L w = (r, w') \<Longrightarrow>
     state_file w' = state_file w \<and> writes w' = writes w \<and> console w' = console w \<and>
     posts w' = posts w"
proof (induction L arbitrary: w r w')
  case Nil
  then show ?case by simp
next
  case (Cons d L)
  obtain r1 w1 where v: "es_valido_ahora env d w = (r1, w1)"
    by (cases "es_valido_ahora env d w")
  note f = es_valido_ahora_frame [OF v]
  show ?case
  proof (cases r1)
    case (Inl e)
    with Cons.prems v f show ?thesis by simp
  next
    case (Inr ok)
    obtain r2 w2 where a: "actuales_de env L w1 = (r2, w2)"
      by (cases "actuales_de env L w1")
    from Cons.IH [OF a] f have "state_file w2 = state_file w \<and> writes w2 = writes w \<and>
        console w2 = console w \<and> posts w2 = posts w" by simp
    with Cons.prems v Inr a show ?thesis by (auto split: sum.splits)
  qed
qed



















lemma ahora_env_ej: "ahora env_ej k = hoy_ej"
  by (simp add: env_ej_def)



section \<open>The orchestrator: properties\<close>

lemma notify_frame:
  "state_file (notify env m w) = state_file w" "writes (notify env m w) = writes w"
  "reloj (notify env m w) = reloj w + 1"
  by (auto simp: notify_def Let_def split: option.splits)


lemma nuevos_de_frame:
  "nuevos_de env K F w = (r, w') \<Longrightarrow>
     state_file w' = state_file w \<and> writes w' = writes w \<and> console w' = console w \<and>
     posts w' = posts w"
proof (induction F arbitrary: w r w')
  case Nil
  then show ?case by simp
next
  case (Cons d F)
  show ?case
  proof (cases "map_of d ''id''")
    case None
    with Cons.prems show ?thesis by (simp add: subscript_def)
  next
    case (Some i)
    show ?thesis
    proof (cases "py_key i \<in> set K")
      case True
      with Some Cons.prems have "nuevos_de env K F w = (r, w')" by (simp add: subscript_def)
      from Cons.IH [OF this] show ?thesis .
    next
      case False
      obtain r1 w1 where v: "es_valido_ahora env d w = (r1, w1)"
        by (cases "es_valido_ahora env d w")
      note f = es_valido_ahora_frame [OF v]
      show ?thesis
      proof (cases r1)
        case (Inl e)
        with Cons.prems Some False v f show ?thesis by (simp add: subscript_def)
      next
        case (Inr ok)
        obtain r2 w2 where a: "nuevos_de env K F w1 = (r2, w2)"
          by (cases "nuevos_de env K F w1")
        from Cons.IH [OF a] f have "state_file w2 = state_file w \<and> writes w2 = writes w \<and>
            console w2 = console w \<and> posts w2 = posts w" by simp
        with Cons.prems Some False v Inr a show ?thesis
          by (auto simp: subscript_def split: sum.splits)
      qed
    qed
  qed
qed




















lemma ids_validos_frame:
  "ids_validos env E w = (r, w') \<Longrightarrow>
     state_file w' = state_file w \<and> writes w' = writes w \<and> console w' = console w \<and>
     posts w' = posts w"
proof (induction E arbitrary: w r w')
  case Nil
  then show ?case by simp
next
  case (Cons d E)
  obtain r1 w1 where v: "es_valido_ahora env d w = (r1, w1)"
    by (cases "es_valido_ahora env d w")
  note f = es_valido_ahora_frame [OF v]
  show ?case
  proof (cases r1)
    case (Inl e)
    with Cons.prems v f show ?thesis by simp
  next
    case (Inr ok)
    obtain r2 w2 where a: "ids_validos env E w1 = (r2, w2)"
      by (cases "ids_validos env E w1")
    from Cons.IH [OF a] f have "state_file w2 = state_file w \<and> writes w2 = writes w \<and>
        console w2 = console w \<and> posts w2 = posts w" by simp
    with Cons.prems v Inr a f show ?thesis
      by (auto split: sum.splits if_splits)
  qed
qed

lemma guardar_estado_frame:
  "guardar_estado env L w = (r, w') \<Longrightarrow> console w' = console w \<and> posts w' = posts w"
proof -
  assume g: "guardar_estado env L w = (r, w')"
  obtain r1 w1 where a: "actuales_de env L w = (r1, w1)" by (cases "actuales_de env L w")
  from actuales_de_frame [OF a] a g show ?thesis
    by (cases r1) (auto simp: guardar_estado_def)
qed





























text \<open>
  The clock is read at every call of the validity predicate. Around midnight of the last
  day of a month a list may be saved whose records are valid in no single month, and a pass
  may notify a document and then write the empty list.
\<close>

lemma guardar_estado_fin_de_mes:
  "state_file (snd (guardar_estado env_fin_de_mes [doc_octubre, doc_ej] (w_ej\<lparr>reloj := 2\<rparr>))) =
     Some (JsonText [doc_octubre, doc_ej]) \<and>
   es_valido (ahora env_fin_de_mes 2) doc_ej = Inr False \<and>
   es_valido (ahora env_fin_de_mes 3) doc_octubre = Inr False"
  by code_simp

lemma pasada_fin_de_mes:
  "main env_fin_de_mes w_ej =
     (Inr (), \<lparr>state_file = Some (JsonText []), writes = 1, reloj = 4,
               console = [''[31/10 23:59] Monitor iniciado. Docs v lidos conocidos: 0'',
                          ''[31/10 23:59] Nuevo documento: Cobertura (30-10-2026)'' @ [CHR 0x0A] @
                            ''https://www.claro.com.ec/doc/4.pdf''],
               posts = []\<rparr>)"
  by code_simp




section \<open>The notifier: properties\<close>

lemma notify_sin_webhook:
  "sin_webhook env \<Longrightarrow> posts (notify env m w) = posts w"
  by (auto simp: sin_webhook_def notify_def Let_def split: option.splits)

lemma notificar_nuevos_sin_webhook:
  "sin_webhook env \<Longrightarrow> posts (snd (notificar_nuevos env ns K w)) = posts w"
  by (induction ns arbitrary: K w) (auto simp: notify_sin_webhook split: sum.splits)

lemma novedades_sin_webhook:
  assumes "sin_webhook env"
  shows "posts (snd (novedades env K F w)) = posts w"
proof -
  obtain r w1 where n: "nuevos_de env K F w = (r, w1)" by (cases "nuevos_de env K F w")
  note f = nuevos_de_frame [OF n]
  show ?thesis
  proof (cases r)
    case (Inl e)
    with n f show ?thesis by (simp add: novedades_def)
  next
    case (Inr ns)
    obtain r2 w2 where m: "notificar_nuevos env ns K w1 = (r2, w2)"
      by (cases "notificar_nuevos env ns K w1")
    from n Inr m have "snd (novedades env K F w) = w2"
      by (cases r2) (simp_all add: novedades_def)
    with notificar_nuevos_sin_webhook [OF assms, of ns K w1] m f show ?thesis by simp
  qed
qed

lemma cuerpo_sin_webhook:
  assumes "sin_webhook env"
  shows "posts (snd (cuerpo env K w)) = posts w"
proof (cases "obtener_documentos env")
  case (Inl a)
  then show ?thesis by (simp add: cuerpo_def)
next
  case F: (Inr F)
  obtain rn w1 where n: "novedades env K F w = (rn, w1)" by (cases "novedades env K F w")
  from novedades_sin_webhook [OF assms, of K F w] n have f: "posts w1 = posts w" by simp
  show ?thesis
  proof (cases rn)
    case (Inl a)
    with F n f show ?thesis by (simp add: cuerpo_def)
  next
    case p: (Inr p)
    obtain rg w2 where g: "guardar_estado env F w1 = (rg, w2)"
      by (cases "guardar_estado env F w1")
    from guardar_estado_frame [OF g] f have "posts w2 = posts w" by simp
    with F n p f g show ?thesis
      by (cases rg) (simp_all add: cuerpo_def notify_sin_webhook [OF assms])
  qed
qed

lemma main_sin_webhook:
  assumes "sin_webhook env"
  shows "posts (snd (main env w)) = posts w"
proof (cases "cargar_estado w")
  case (Inl a)
  then show ?thesis by (simp add: main_def)
next
  case E: (Inr E)
  obtain ri w0 where i: "ids_validos env E w = (ri, w0)" by (cases "ids_validos env E w")
  from ids_validos_frame [OF i] have f: "posts w0 = posts w" by simp
  show ?thesis
  proof (cases ri)
    case (Inl a)
    with E i f show ?thesis by (simp add: main_def)
  next
    case K: (Inr K)
    let ?w1 = "notify env (mensaje_inicio K) w0"
    obtain r w2 where c: "cuerpo env K ?w1 = (r, w2)" by (cases "cuerpo env K ?w1")
    from cuerpo_sin_webhook [OF assms, of K ?w1] c f
    have "posts w2 = posts w" by (simp add: notify_sin_webhook [OF assms])
    with E i K c show ?thesis
      by (cases r) (simp_all add: main_def notify_sin_webhook [OF assms])
  qed
qed

text \<open>Two runs that differ in the outcomes of the POSTs only.\<close>

lemma extraer_post: "extraer (env\<lparr>requests_post := r\<rparr>) bs = extraer env bs"
  by (induction bs) (auto split: sum.splits)

lemma scripts_de_post: "scripts_de (env\<lparr>requests_post := r\<rparr>) html = scripts_de env html"
  by (simp add: scripts_de_def)

lemma obtener_documentos_post:
  "obtener_documentos (env\<lparr>requests_post := r\<rparr>) = obtener_documentos env"
  by (simp add: obtener_documentos_def scripts_de_post extraer_post Let_def split: sum.splits)

lemma notify_post:
  "mismo_archivo w1 w2 \<Longrightarrow> mismo_archivo (notify (env\<lparr>requests_post := r\<rparr>) m w1) (notify env m w2)"
  by (simp add: mismo_archivo_def notify_frame)

lemma es_valido_ahora_post:
  "mismo_archivo w1 w2 \<Longrightarrow>
     \<exists>x v1 v2. es_valido_ahora (env\<lparr>requests_post := r\<rparr>) d w1 = (x, v1) \<and>
               es_valido_ahora env d w2 = (x, v2) \<and> mismo_archivo v1 v2"
  by (auto simp: es_valido_ahora_def mismo_archivo_def split: sum.splits)

lemma actuales_de_post:
  "mismo_archivo w1 w2 \<Longrightarrow>
     \<exists>x v1 v2. actuales_de (env\<lparr>requests_post := r\<rparr>) L w1 = (x, v1) \<and>
               actuales_de env L w2 = (x, v2) \<and> mismo_archivo v1 v2"
proof (induction L arbitrary: w1 w2)
  case Nil
  then show ?case by simp
next
  case (Cons d L)
  from es_valido_ahora_post [OF Cons.prems, where env = env and r = r and d = d] obtain x v1 v2
    where e: "es_valido_ahora (env\<lparr>requests_post := r\<rparr>) d w1 = (x, v1)"
      "es_valido_ahora env d w2 = (x, v2)" "mismo_archivo v1 v2" by blast
  show ?case
  proof (cases x)
    case (Inl a)
    with e show ?thesis by simp
  next
    case (Inr ok)
    from Cons.IH [OF e(3)] obtain y u1 u2
      where a: "actuales_de (env\<lparr>requests_post := r\<rparr>) L v1 = (y, u1)"
        "actuales_de env L v2 = (y, u2)" "mismo_archivo u1 u2" by blast
    with e Inr show ?thesis by (cases y) simp_all
  qed
qed

lemma guardar_estado_post:
  assumes "mismo_archivo w1 w2"
  shows "\<exists>x v1 v2. guardar_estado (env\<lparr>requests_post := r\<rparr>) L w1 = (x, v1) \<and>
               guardar_estado env L w2 = (x, v2) \<and> mismo_archivo v1 v2"
proof -
  from actuales_de_post [OF assms, where env = env and r = r and L = L] obtain y u1 u2
    where a: "actuales_de (env\<lparr>requests_post := r\<rparr>) L w1 = (y, u1)"
      "actuales_de env L w2 = (y, u2)" "mismo_archivo u1 u2" by blast
  then show ?thesis by (cases y) (simp_all add: guardar_estado_def mismo_archivo_def)
qed

lemma ids_validos_post:
  "mismo_archivo w1 w2 \<Longrightarrow>
     \<exists>x v1 v2. ids_validos (env\<lparr>requests_post := r\<rparr>) L w1 = (x, v1) \<and>
               ids_validos env L w2 = (x, v2) \<and> mismo_archivo v1 v2"
proof (induction L arbitrary: w1 w2)
  case Nil
  then show ?case by simp
next
  case (Cons d L)
  from es_valido_ahora_post [OF Cons.prems, where env = env and r = r and d = d] obtain x v1 v2
    where e: "es_valido_ahora (env\<lparr>requests_post := r\<rparr>) d w1 = (x, v1)"
      "es_valido_ahora env d w2 = (x, v2)" "mismo_archivo v1 v2" by blast
  show ?case
  proof (cases x)
    case (Inl a)
    with e show ?thesis by simp
  next
    case (Inr ok)
    from Cons.IH [OF e(3)] obtain y u1 u2
      where a: "ids_validos (env\<lparr>requests_post := r\<rparr>) L v1 = (y, u1)"
        "ids_validos env L v2 = (y, u2)" "mismo_archivo u1 u2" by blast
    with e Inr show ?thesis by (cases y) (auto split: sum.splits)
  qed
qed

lemma nuevos_de_post:
  "mismo_archivo w1 w2 \<Longrightarrow>
     \<exists>x v1 v2. nuevos_de (env\<lparr>requests_post := r\<rparr>) K L w1 = (x, v1) \<and>
               nuevos_de env K L w2 = (x, v2) \<and> mismo_archivo v1 v2"
proof (induction L arbitrary: w1 w2)
  case Nil
  then show ?case by simp
next
  case (Cons d L)
  show ?case
  proof (cases "subscript d ''id''")
    case (Inl a)
    with Cons.prems show ?thesis by simp
  next
    case i: (Inr i)
    show ?thesis
    proof (cases "py_key i \<in> set K")
      case True
      with i Cons.IH [OF Cons.prems] show ?thesis by simp
    next
      case False
      from es_valido_ahora_post [OF Cons.prems, where env = env and r = r and d = d] obtain x v1 v2
        where e: "es_valido_ahora (env\<lparr>requests_post := r\<rparr>) d w1 = (x, v1)"
          "es_valido_ahora env d w2 = (x, v2)" "mismo_archivo v1 v2" by blast
      show ?thesis
      proof (cases x)
        case (Inl a)
        with e i False show ?thesis by simp
      next
        case (Inr ok)
        from Cons.IH [OF e(3)] obtain y u1 u2
          where a: "nuevos_de (env\<lparr>requests_post := r\<rparr>) K L v1 = (y, u1)"
            "nuevos_de env K L v2 = (y, u2)" "mismo_archivo u1 u2" by blast
        with e Inr i False show ?thesis by (cases y) simp_all
      qed
    qed
  qed
qed

lemma notificar_nuevos_post:
  "mismo_archivo w1 w2 \<Longrightarrow>
     \<exists>x v1 v2. notificar_nuevos (env\<lparr>requests_post := r\<rparr>) ns K w1 = (x, v1) \<and>
               notificar_nuevos env ns K w2 = (x, v2) \<and> mismo_archivo v1 v2"
proof (induction ns arbitrary: K w1 w2)
  case Nil
  then show ?case by simp
next
  case (Cons d ns)
  show ?case
  proof (cases "mensaje_nuevo d")
    case (Inl a)
    with Cons.prems show ?thesis by simp
  next
    case m: (Inr m)
    note n = notify_post [OF Cons.prems, where env = env and r = r and m = m]
    show ?thesis
    proof (cases "subscript d ''id''")
      case (Inl a)
      with m n show ?thesis by simp
    next
      case (Inr i)
      with m Cons.IH [OF n, where K = "List.insert (py_key i) K"] show ?thesis by simp
    qed
  qed
qed

lemma novedades_post:
  assumes "mismo_archivo w1 w2"
  shows "\<exists>x v1 v2. novedades (env\<lparr>requests_post := r\<rparr>) K F w1 = (x, v1) \<and>
               novedades env K F w2 = (x, v2) \<and> mismo_archivo v1 v2"
proof -
  from nuevos_de_post [OF assms, where env = env and r = r and K = K and L = F] obtain y u1 u2
    where a: "nuevos_de (env\<lparr>requests_post := r\<rparr>) K F w1 = (y, u1)"
      "nuevos_de env K F w2 = (y, u2)" "mismo_archivo u1 u2" by blast
  show ?thesis
  proof (cases y)
    case (Inl e)
    with a show ?thesis by (simp add: novedades_def)
  next
    case (Inr ns)
    from notificar_nuevos_post [OF a(3), where env = env and r = r and ns = ns and K = K] obtain z t1 t2
      where b: "notificar_nuevos (env\<lparr>requests_post := r\<rparr>) ns K u1 = (z, t1)"
        "notificar_nuevos env ns K u2 = (z, t2)" "mismo_archivo t1 t2" by blast
    with a Inr show ?thesis by (cases z) (simp_all add: novedades_def)
  qed
qed

lemma cuerpo_post:
  assumes "mismo_archivo w1 w2"
  shows "\<exists>x v1 v2. cuerpo (env\<lparr>requests_post := r\<rparr>) K w1 = (x, v1) \<and>
               cuerpo env K w2 = (x, v2) \<and> mismo_archivo v1 v2"
proof (cases "obtener_documentos env")
  case (Inl a)
  with assms show ?thesis by (simp add: cuerpo_def obtener_documentos_post)
next
  case F: (Inr F)
  from novedades_post [OF assms, where env = env and r = r and K = K and F = F] obtain y u1 u2
    where a: "novedades (env\<lparr>requests_post := r\<rparr>) K F w1 = (y, u1)"
      "novedades env K F w2 = (y, u2)" "mismo_archivo u1 u2" by blast
  show ?thesis
  proof (cases y)
    case (Inl e)
    with F a show ?thesis by (simp add: cuerpo_def obtener_documentos_post)
  next
    case p: (Inr p)
    show ?thesis
    proof (cases "nuevos p = []")
      case True
      with F a p notify_post [OF a(3), where env = env and r = r and m = "''Sin novedades en esta pasada''"]
      show ?thesis by (simp add: cuerpo_def obtener_documentos_post)
    next
      case False
      from guardar_estado_post [OF a(3), where env = env and r = r and L = F] obtain z t1 t2
        where b: "guardar_estado (env\<lparr>requests_post := r\<rparr>) F u1 = (z, t1)"
          "guardar_estado env F u2 = (z, t2)" "mismo_archivo t1 t2" by blast
      with F a p False show ?thesis
        by (cases z) (simp_all add: cuerpo_def obtener_documentos_post)
    qed
  qed
qed

lemma main_post:
  "fst (main (env\<lparr>requests_post := r\<rparr>) w) = fst (main env w) \<and>
   mismo_archivo (snd (main (env\<lparr>requests_post := r\<rparr>) w)) (snd (main env w))"
proof (cases "cargar_estado w")
  case (Inl a)
  then show ?thesis by (simp add: main_def mismo_archivo_def)
next
  case E: (Inr E)
  have "mismo_archivo w w" by (simp add: mismo_archivo_def)
  from ids_validos_post [OF this, where env = env and r = r and L = E] obtain y u1 u2
    where a: "ids_validos (env\<lparr>requests_post := r\<rparr>) E w = (y, u1)"
      "ids_validos env E w = (y, u2)" "mismo_archivo u1 u2" by blast
  show ?thesis
  proof (cases y)
    case (Inl e)
    with E a show ?thesis by (simp add: main_def)
  next
    case K: (Inr K)
    from cuerpo_post [OF notify_post [OF a(3), where env = env and r = r and m = "mensaje_inicio K"], where K = K] obtain z t1 t2
      where b: "cuerpo (env\<lparr>requests_post := r\<rparr>) K (notify (env\<lparr>requests_post := r\<rparr>) (mensaje_inicio K) u1) = (z, t1)"
        "cuerpo env K (notify env (mensaje_inicio K) u2) = (z, t2)" "mismo_archivo t1 t2" by blast
    with E a K notify_post [OF b(3), where env = env and r = r] show ?thesis
      by (cases z) (simp_all add: main_def)
  qed
qed

text \<open>
  Claim C9. \<^verbatim>\<open>notify\<close> always returns: it prints the line of the message and, with a
  webhook, posts the message. When the POST fails, the failure is printed on the console and
  nothing else changes: the state file is not touched. Whatever the outcomes of the POSTs,
  \<^verbatim>\<open>main\<close> ends the same way and leaves the same state file, written the same number of
  times. With no webhook configured, neither \<^verbatim>\<open>notify\<close> nor a whole pass attempts a POST.
\<close>

theorem notify_webhook_failure:
  "(DISCORD_WEBHOOK env = Some url \<and> url \<noteq> [] \<and> requests_post env (length (posts w)) = Some m \<longrightarrow>
      notify env msg w =
        w\<lparr>reloj := reloj w + 1,
          console := console w @
                      [strftime_ts (ahora env (reloj w)) @
                         map (\<lambda>c. if is_ascii c then c else CHR '' '') msg,
                       ''Error Discord: '' @ m],
          posts := posts w @ [(url, msg)]\<rparr>) \<and>
   (DISCORD_WEBHOOK env = Some url \<and> url \<noteq> [] \<and> requests_post env (length (posts w)) = None \<longrightarrow>
      notify env msg w =
        w\<lparr>reloj := reloj w + 1,
          console := console w @
                      [strftime_ts (ahora env (reloj w)) @
                         map (\<lambda>c. if is_ascii c then c else CHR '' '') msg],
          posts := posts w @ [(url, msg)]\<rparr>) \<and>
   state_file (notify env msg w) = state_file w \<and>
   writes (notify env msg w) = writes w \<and>
   fst (main (env\<lparr>requests_post := r\<rparr>) w) = fst (main env w) \<and>
   state_file (snd (main (env\<lparr>requests_post := r\<rparr>) w)) = state_file (snd (main env w)) \<and>
   writes (snd (main (env\<lparr>requests_post := r\<rparr>) w)) = writes (snd (main env w)) \<and>
   (DISCORD_WEBHOOK env = None \<or> DISCORD_WEBHOOK env = Some [] \<longrightarrow>
      notify env msg w =
        w\<lparr>reloj := reloj w + 1,
          console := console w @
                      [strftime_ts (ahora env (reloj w)) @
                         map (\<lambda>c. if is_ascii c then c else CHR '' '') msg]\<rparr> \<and>
      posts (notify env msg w) = posts w \<and> posts (snd (main env w)) = posts w)"
proof -
  have a: "notify env msg w =
        w\<lparr>reloj := reloj w + 1,
          console := console w @
                      [strftime_ts (ahora env (reloj w)) @
                         map (\<lambda>c. if is_ascii c then c else CHR '' '') msg,
                       ''Error Discord: '' @ m],
          posts := posts w @ [(url, msg)]\<rparr>"
    if "DISCORD_WEBHOOK env = Some url" "url \<noteq> []" "requests_post env (length (posts w)) = Some m"
    using that by (simp add: notify_def Let_def)
  have b: "notify env msg w =
        w\<lparr>reloj := reloj w + 1,
          console := console w @
                      [strftime_ts (ahora env (reloj w)) @
                         map (\<lambda>c. if is_ascii c then c else CHR '' '') msg],
          posts := posts w @ [(url, msg)]\<rparr>"
    if "DISCORD_WEBHOOK env = Some url" "url \<noteq> []" "requests_post env (length (posts w)) = None"
    using that by (simp add: notify_def Let_def)
  have c: "notify env msg w =
        w\<lparr>reloj := reloj w + 1,
          console := console w @
                      [strftime_ts (ahora env (reloj w)) @
                         map (\<lambda>c. if is_ascii c then c else CHR '' '') msg]\<rparr> \<and>
      posts (notify env msg w) = posts w \<and> posts (snd (main env w)) = posts w"
    if h: "DISCORD_WEBHOOK env = None \<or> DISCORD_WEBHOOK env = Some []"
  proof -
    from h have s: "sin_webhook env" by (auto simp: sin_webhook_def)
    from h have "notify env msg w =
        w\<lparr>reloj := reloj w + 1,
          console := console w @
                      [strftime_ts (ahora env (reloj w)) @
                         map (\<lambda>c. if is_ascii c then c else CHR '' '') msg]\<rparr>"
      by (auto simp: notify_def Let_def)
    with notify_sin_webhook [OF s, of msg w] main_sin_webhook [OF s, of w] show ?thesis by simp
  qed
  from main_post [where env = env and r = r and w = w]
  have d: "fst (main (env\<lparr>requests_post := r\<rparr>) w) = fst (main env w) \<and>
   state_file (snd (main (env\<lparr>requests_post := r\<rparr>) w)) = state_file (snd (main env w)) \<and>
   writes (snd (main (env\<lparr>requests_post := r\<rparr>) w)) = writes (snd (main env w))"
    by (simp add: mismo_archivo_def)
  from a b c d show ?thesis by (simp add: notify_frame)
qed

theorem notify_webhook_failure_witness:
  "DISCORD_WEBHOOK env_ej = Some ''https://discord.example/hook'' \<and>
   requests_post env_ej (length (posts w_un_post)) = Some ''timeout'' \<and>
   notify env_ej ''Sin novedades en esta pasada'' w_un_post =
     w_un_post\<lparr>reloj := 1,
               console := [''[04/11 09:05] Sin novedades en esta pasada'', ''Error Discord: timeout''],
               posts := [(''https://discord.example/hook'', ''hola''),
                         (''https://discord.example/hook'', ''Sin novedades en esta pasada'')]\<rparr> \<and>
   requests_post env_ej (length (posts w_ej)) = None \<and>
   notify env_ej ''hola'' w_ej =
     w_ej\<lparr>reloj := 1, console := [''[04/11 09:05] hola''],
          posts := [(''https://discord.example/hook'', ''hola'')]\<rparr> \<and>
   fst (main (env_ej\<lparr>requests_post := (\<lambda>k. None)\<rparr>) w_ej) = fst (main env_ej w_ej) \<and>
   state_file (snd (main (env_ej\<lparr>requests_post := (\<lambda>k. None)\<rparr>) w_ej)) = state_file (snd (main env_ej w_ej)) \<and>
   DISCORD_WEBHOOK env_sin_webhook = None \<and>
   notify env_sin_webhook ''hola'' w_ej = w_ej\<lparr>reloj := 1, console := [''[04/11 09:05] hola'']\<rparr> \<and>
   posts (snd (main env_sin_webhook w_ej)) = []"
proof -
  have a: "DISCORD_WEBHOOK env_ej = Some ''https://discord.example/hook''"
    and b: "requests_post env_ej (length (posts w_un_post)) = Some ''timeout''"
    and b0: "requests_post env_ej (length (posts w_ej)) = None"
    and c: "DISCORD_WEBHOOK env_sin_webhook = None"
    and h: "ahora env_sin_webhook k = hoy_ej" for k
    by (simp_all add: env_ej_def w_un_post_def w_ej_def env_sin_webhook_def)
  have t: "strftime_ts hoy_ej = ''[04/11 09:05] ''"
    by code_simp
  from notify_webhook_failure
    [where env = env_ej and w = w_un_post and url = "''https://discord.example/hook''"
       and m = "''timeout''" and msg = "''Sin novedades en esta pasada''" and r = "\<lambda>k. None"]
    a b
  have 1: "notify env_ej ''Sin novedades en esta pasada'' w_un_post =
     w_un_post\<lparr>reloj := 1,
               console := [''[04/11 09:05] Sin novedades en esta pasada'', ''Error Discord: timeout''],
               posts := [(''https://discord.example/hook'', ''hola''),
                         (''https://discord.example/hook'', ''Sin novedades en esta pasada'')]\<rparr>"
    by (simp add: ahora_env_ej t is_ascii_def w_un_post_def)
  from notify_webhook_failure
    [where env = env_ej and w = w_ej and url = "''https://discord.example/hook''"
       and msg = "''hola''" and r = "\<lambda>k. None"]
    a b0
  have 2: "notify env_ej ''hola'' w_ej =
     w_ej\<lparr>reloj := 1, console := [''[04/11 09:05] hola''],
          posts := [(''https://discord.example/hook'', ''hola'')]\<rparr> \<and>
     fst (main (env_ej\<lparr>requests_post := (\<lambda>k. None)\<rparr>) w_ej) = fst (main env_ej w_ej) \<and>
     state_file (snd (main (env_ej\<lparr>requests_post := (\<lambda>k. None)\<rparr>) w_ej)) = state_file (snd (main env_ej w_ej))"
    by (simp add: ahora_env_ej t is_ascii_def w_ej_def)
  from notify_webhook_failure [where env = env_sin_webhook and w = w_ej and msg = "''hola''"] c
  have 3: "notify env_sin_webhook ''hola'' w_ej = w_ej\<lparr>reloj := 1, console := [''[04/11 09:05] hola'']\<rparr> \<and>
     posts (snd (main env_sin_webhook w_ej)) = []"
    by (simp add: h t is_ascii_def w_ej_def)
  from a b b0 c 1 2 3 show ?thesis by simp
qed

end
